theory Spec2Isabelle
  imports Complex_Main
begin

section \<open>Data model of \<^verbatim>\<open>bank.py\<close>\<close>

text \<open>
  Amounts and balances are Python numbers (the menu reads them with \<^verbatim>\<open>float(input(...))\<close>).
  They are modelled as \<^typ>\<open>real\<close>: comparison and addition are exact, the rounding and the
  special values (infinities, NaN) of binary floating point are not modelled.

  A transaction is a Python dict. Every key may be absent (the history report tests
  \<^verbatim>\<open>'action' not in trans\<close> and reads the others with \<^verbatim>\<open>get\<close>), so each key is an option;
  \<open>None\<close> means that the key is absent.
\<close>

record entry =
  e_timestamp :: "string option"
  e_action :: "string option"
  e_amount :: "real option"
  e_running_balance :: "real option"
  e_details :: "string option"

text \<open>
  The Python class of an object. \<^verbatim>\<open>Account\<close> is the base class, whose \<^verbatim>\<open>withdraw\<close>
  raises; \<^verbatim>\<open>SavingsAccount\<close> and \<^verbatim>\<open>CheckingAccount\<close> override it.
\<close>

datatype account_class = Account | SavingsAccount | CheckingAccount

text \<open>
  The attributes of an account object (\<^verbatim>\<open>self._name\<close>, \<^verbatim>\<open>self._balance\<close>, ...).
  Name, number, email and the address attributes may hold Python's \<^verbatim>\<open>None\<close> (they are
  read with \<^verbatim>\<open>data.get(key)\<close> on reconstruction), hence the options.
\<close>

record account =
  acc_class :: account_class
  acc_name :: "string option"
  acc_account_number :: "string option"
  acc_email :: "string option"
  acc_balance :: real
  acc_account_type :: string
  acc_street_address :: "string option"
  acc_postal_code :: "string option"
  acc_city :: "string option"
  acc_country :: "string option"
  acc_transactions :: "entry list"

datatype py_error = NotImplementedError | IndexError | ValueError | KeyError | UnboundLocalError

section \<open>Account\<close>

text \<open>
  \<^verbatim>\<open>create_timestamped_entry\<close>. Two things come from outside the program and are
  parameters: \<open>now\<close>, the string \<^verbatim>\<open>datetime.now().strftime("%Y-%m-%d %H:%M")\<close>, and
  \<open>fmt\<close>, Python's rendering of a number inside an f-string (\<^verbatim>\<open>f"{amount}"\<close>).
\<close>

definition create_timestamped_entry ::
  "(real \<Rightarrow> string) \<Rightarrow> string \<Rightarrow> string \<Rightarrow> real \<Rightarrow> real \<Rightarrow> entry" where
  "create_timestamped_entry fmt now act amt rb =
     \<lparr> e_timestamp = Some now,
       e_action = Some act,
       e_amount = Some amt,
       e_running_balance = Some rb,
       e_details = Some (act @ '': $'' @ fmt amt) \<rparr>"

text \<open>\<^verbatim>\<open>Account.__init__\<close>, with the class of the object under construction as \<open>cls\<close>.\<close>

definition Account_init ::
  "(real \<Rightarrow> string) \<Rightarrow> string \<Rightarrow> account_class \<Rightarrow> string option \<Rightarrow> string option \<Rightarrow>
   string option \<Rightarrow> real \<Rightarrow> string \<Rightarrow> string option \<Rightarrow> string option \<Rightarrow> string option \<Rightarrow>
   string option \<Rightarrow> account" where
  "Account_init fmt now cls name account_number email initial_balance account_type
       street_address postal_code city country =
     \<lparr> acc_class = cls,
       acc_name = name,
       acc_account_number = account_number,
       acc_email = email,
       acc_balance = initial_balance,
       acc_account_type = account_type,
       acc_street_address = street_address,
       acc_postal_code = postal_code,
       acc_city = city,
       acc_country = country,
       acc_transactions =
         [create_timestamped_entry fmt now ''Account created with balance''
            initial_balance initial_balance] \<rparr>"

definition SavingsAccount_init ::
  "(real \<Rightarrow> string) \<Rightarrow> string \<Rightarrow> string option \<Rightarrow> string option \<Rightarrow> string option \<Rightarrow> real \<Rightarrow>
   string option \<Rightarrow> string option \<Rightarrow> string option \<Rightarrow> string option \<Rightarrow> account" where
  "SavingsAccount_init fmt now name account_number email initial_balance
       street_address postal_code city country =
     Account_init fmt now SavingsAccount name account_number email initial_balance ''Savings''
       street_address postal_code city country"

definition CheckingAccount_init ::
  "(real \<Rightarrow> string) \<Rightarrow> string \<Rightarrow> string option \<Rightarrow> string option \<Rightarrow> string option \<Rightarrow> real \<Rightarrow>
   string option \<Rightarrow> string option \<Rightarrow> string option \<Rightarrow> string option \<Rightarrow> account" where
  "CheckingAccount_init fmt now name account_number email initial_balance
       street_address postal_code city country =
     Account_init fmt now CheckingAccount name account_number email initial_balance ''Checking''
       street_address postal_code city country"


text \<open>The dict literal that both \<^verbatim>\<open>withdraw\<close> overrides append.\<close>

definition withdrawal_entry :: "(real \<Rightarrow> string) \<Rightarrow> string \<Rightarrow> real \<Rightarrow> real \<Rightarrow> entry" where
  "withdrawal_entry fmt now amt rb =
     \<lparr> e_timestamp = Some now,
       e_action = Some ''Withdrawal'',
       e_amount = Some amt,
       e_running_balance = Some rb,
       e_details = Some (''Withdrawal: $'' @ fmt amt) \<rparr>"

definition WITHDRAWAL_LIMIT :: real where
  "WITHDRAWAL_LIMIT = 100"

definition SavingsAccount_withdraw ::
  "(real \<Rightarrow> string) \<Rightarrow> string \<Rightarrow> real \<Rightarrow> account \<Rightarrow> bool \<times> account" where
  "SavingsAccount_withdraw fmt now amt a =
     (if amt > WITHDRAWAL_LIMIT then (False, a)
      else if amt > 0 \<and> amt \<le> acc_balance a then
        (let b = acc_balance a - amt in
         (True, a\<lparr> acc_balance := b,
                   acc_transactions := acc_transactions a @ [withdrawal_entry fmt now amt b] \<rparr>))
      else (False, a))"

definition CheckingAccount_withdraw ::
  "(real \<Rightarrow> string) \<Rightarrow> string \<Rightarrow> real \<Rightarrow> account \<Rightarrow> bool \<times> account" where
  "CheckingAccount_withdraw fmt now amt a =
     (if amt > 0 \<and> amt \<le> acc_balance a then
        (let b = acc_balance a - amt in
         (True, a\<lparr> acc_balance := b,
                   acc_transactions := acc_transactions a @ [withdrawal_entry fmt now amt b] \<rparr>))
      else (False, a))"

text \<open>
  \<^verbatim>\<open>account.withdraw(amount)\<close> as the callers write it: the method is chosen by the class
  of the object, and the base class raises.
\<close>

definition withdraw ::
  "(real \<Rightarrow> string) \<Rightarrow> string \<Rightarrow> real \<Rightarrow> account \<Rightarrow> py_error + bool \<times> account" where
  "withdraw fmt now amt a =
     (case acc_class a of
        Account \<Rightarrow> Inl NotImplementedError
      | SavingsAccount \<Rightarrow> Inr (SavingsAccount_withdraw fmt now amt a)
      | CheckingAccount \<Rightarrow> Inr (CheckingAccount_withdraw fmt now amt a))"




section \<open>Serialization\<close>

text \<open>
  The dict that \<^verbatim>\<open>to_dict\<close> builds and \<^verbatim>\<open>from_dict\<close> reads. \<^verbatim>\<open>from_dict\<close> reads every key
  with \<^verbatim>\<open>data.get\<close>, so each key may be absent. For \<^verbatim>\<open>balance\<close>, \<^verbatim>\<open>account_type\<close> and
  \<^verbatim>\<open>transactions\<close>, which have a default, \<open>None\<close> is the absent key. For the other keys
  \<open>None\<close> is the absent key or the value \<^verbatim>\<open>None\<close> (JSON \<^verbatim>\<open>null\<close>): \<^verbatim>\<open>data.get(key)\<close> gives
  \<^verbatim>\<open>None\<close> for both.
\<close>

record data =
  d_name :: "string option"
  d_account_number :: "string option"
  d_email :: "string option"
  d_balance :: "real option"
  d_account_type :: "string option"
  d_street_address :: "string option"
  d_postal_code :: "string option"
  d_city :: "string option"
  d_country :: "string option"
  d_transactions :: "entry list option"

text \<open>\<^verbatim>\<open>dict.get(key, default)\<close> on one key.\<close>

definition get_default :: "'a option \<Rightarrow> 'a \<Rightarrow> 'a" where
  "get_default v d = (case v of None \<Rightarrow> d | Some x \<Rightarrow> x)"

definition to_dict :: "account \<Rightarrow> data" where
  "to_dict a =
     \<lparr> d_name = acc_name a,
       d_account_number = acc_account_number a,
       d_email = acc_email a,
       d_balance = Some (acc_balance a),
       d_account_type = Some (acc_account_type a),
       d_street_address = acc_street_address a,
       d_postal_code = acc_postal_code a,
       d_city = acc_city a,
       d_country = acc_country a,
       d_transactions = Some (acc_transactions a) \<rparr>"

text \<open>
  The three \<^verbatim>\<open>from_dict\<close> methods: the constructor runs first (and appends its creation
  entry), then \<^verbatim>\<open>account._transactions\<close> is assigned.
\<close>

definition SavingsAccount_from_dict :: "(real \<Rightarrow> string) \<Rightarrow> string \<Rightarrow> data \<Rightarrow> account" where
  "SavingsAccount_from_dict fmt now d =
     (let account = SavingsAccount_init fmt now (d_name d) (d_account_number d) (d_email d)
                      (get_default (d_balance d) 0)
                      (d_street_address d) (d_postal_code d) (d_city d) (d_country d)
      in account\<lparr> acc_transactions := get_default (d_transactions d) [] \<rparr>)"

definition CheckingAccount_from_dict :: "(real \<Rightarrow> string) \<Rightarrow> string \<Rightarrow> data \<Rightarrow> account" where
  "CheckingAccount_from_dict fmt now d =
     (let account = CheckingAccount_init fmt now (d_name d) (d_account_number d) (d_email d)
                      (get_default (d_balance d) 0)
                      (d_street_address d) (d_postal_code d) (d_city d) (d_country d)
      in account\<lparr> acc_transactions := get_default (d_transactions d) [] \<rparr>)"

definition from_dict :: "(real \<Rightarrow> string) \<Rightarrow> string \<Rightarrow> data \<Rightarrow> account" where
  "from_dict fmt now d =
     (if d_account_type d = Some ''Savings'' then SavingsAccount_from_dict fmt now d
      else if d_account_type d = Some ''Checking'' then CheckingAccount_from_dict fmt now d
      else
        (let account = Account_init fmt now Account (d_name d) (d_account_number d) (d_email d)
                         (get_default (d_balance d) 0)
                         (get_default (d_account_type d) ''Savings'')
                         (d_street_address d) (d_postal_code d) (d_city d) (d_country d)
         in account\<lparr> acc_transactions := get_default (d_transactions d) [] \<rparr>))"

section \<open>Transaction history\<close>

text \<open>Python's \<^verbatim>\<open>sub in s\<close> on strings.\<close>

fun starts_with :: "string \<Rightarrow> string \<Rightarrow> bool" where
  "starts_with [] s = True"
| "starts_with (x # xs) [] = False"
| "starts_with (x # xs) (c # cs) = (x = c \<and> starts_with xs cs)"

fun contains :: "string \<Rightarrow> string \<Rightarrow> bool" where
  "contains sub [] = (sub = [])"
| "contains sub (c # cs) = (starts_with sub (c # cs) \<or> contains sub cs)"

text \<open>Python's \<^verbatim>\<open>s.split(sep)\<close> for a separator of one character.\<close>

fun split_on :: "char \<Rightarrow> string \<Rightarrow> string list" where
  "split_on sep [] = [[]]"
| "split_on sep (c # cs) =
     (if c = sep then [] # split_on sep cs
      else (case split_on sep cs of
              [] \<Rightarrow> [[c]]
            | w # ws \<Rightarrow> (c # w) # ws))"

text \<open>
  \<^verbatim>\<open>float(details.split('$')[1])\<close>. The index raises \<^verbatim>\<open>IndexError\<close> when the text has no
  \<^verbatim>\<open>$\<close>. Python's builtin \<^verbatim>\<open>float\<close> on a string is the parameter \<open>pyfloat\<close>, with \<open>None\<close>
  where it raises \<^verbatim>\<open>ValueError\<close>.
\<close>

definition legacy_amount :: "(string \<Rightarrow> real option) \<Rightarrow> string \<Rightarrow> py_error + real" where
  "legacy_amount pyfloat details =
     (case split_on CHR ''$'' details of
        _ # s # _ \<Rightarrow> (case pyfloat s of None \<Rightarrow> Inl ValueError | Some v \<Rightarrow> Inr v)
      | _ \<Rightarrow> Inl IndexError)"

text \<open>
  The local variables of \<^verbatim>\<open>show_transaction_history\<close> that live across iterations of
  its loop. \<^verbatim>\<open>action\<close> and \<^verbatim>\<open>amount\<close> are unbound before their first assignment
  (\<open>None\<close>); \<^verbatim>\<open>running_balance\<close> starts at 0.
\<close>

record locals =
  v_action :: "string option"
  v_amount :: "real option"
  v_running_balance :: real

definition initial_locals :: locals where
  "initial_locals = \<lparr> v_action = None, v_amount = None, v_running_balance = 0 \<rparr>"

text \<open>
  The branch \<^verbatim>\<open>if 'action' not in trans\<close> of the loop body (lines 172 to 184): the
  \<^verbatim>\<open>if\<close>/\<^verbatim>\<open>elif\<close>/\<^verbatim>\<open>elif\<close> chain has no \<^verbatim>\<open>else\<close>, so a text that matches none of the three
  patterns assigns nothing.
\<close>

definition reconcile_legacy ::
  "(string \<Rightarrow> real option) \<Rightarrow> string \<Rightarrow> locals \<Rightarrow> py_error + locals" where
  "reconcile_legacy pyfloat details vars =
     (if contains ''Account created with balance'' details then
        (case legacy_amount pyfloat details of
           Inl e \<Rightarrow> Inl e
         | Inr amt \<Rightarrow> Inr \<lparr> v_action = Some ''Account created'', v_amount = Some amt,
                            v_running_balance = amt \<rparr>)
      else if contains ''Deposited'' details then
        (case legacy_amount pyfloat details of
           Inl e \<Rightarrow> Inl e
         | Inr amt \<Rightarrow> Inr \<lparr> v_action = Some ''Deposit'', v_amount = Some amt,
                            v_running_balance = v_running_balance vars + amt \<rparr>)
      else if contains ''Withdrew'' details then
        (case legacy_amount pyfloat details of
           Inl e \<Rightarrow> Inl e
         | Inr amt \<Rightarrow> Inr \<lparr> v_action = Some ''Withdrawal'', v_amount = Some amt,
                            v_running_balance = v_running_balance vars - amt \<rparr>)
      else Inr vars)"

text \<open>The assignments of one iteration, for both transaction formats.\<close>

definition resolve_entry ::
  "(string \<Rightarrow> real option) \<Rightarrow> entry \<Rightarrow> locals \<Rightarrow> py_error + locals" where
  "resolve_entry pyfloat tr vars =
     (case e_action tr of
        None \<Rightarrow> reconcile_legacy pyfloat (get_default (e_details tr) []) vars
      | Some act \<Rightarrow>
          (case e_amount tr of
             None \<Rightarrow> Inl KeyError
           | Some amt \<Rightarrow>
               Inr \<lparr> v_action = Some act, v_amount = Some amt,
                     v_running_balance =
                       get_default (e_running_balance tr) (v_running_balance vars) \<rparr>))"

text \<open>
  The row of one iteration: timestamp, action, amount string, balance string. \<open>fmt2\<close> is
  Python's rendering \<^verbatim>\<open>f"{x:.2f}"\<close>. Reading \<^verbatim>\<open>action\<close> or \<^verbatim>\<open>amount\<close> while unbound raises.
\<close>

definition make_row :: "(real \<Rightarrow> string) \<Rightarrow> string \<Rightarrow> locals \<Rightarrow> py_error + string list" where
  "make_row fmt2 timestamp vars =
     (case v_action vars of
        None \<Rightarrow> Inl UnboundLocalError
      | Some act \<Rightarrow>
          (case v_amount vars of
             None \<Rightarrow> Inl UnboundLocalError
           | Some amt \<Rightarrow>
               (let amount_str = (if contains ''Withdrawal'' act then ''-$'' @ fmt2 amt
                                  else ''$'' @ fmt2 amt)
                in Inr [timestamp, act, amount_str, ''$'' @ fmt2 (v_running_balance vars)])))"

fun history_loop ::
  "(string \<Rightarrow> real option) \<Rightarrow> (real \<Rightarrow> string) \<Rightarrow> entry list \<Rightarrow> locals \<Rightarrow> string list list \<Rightarrow>
   py_error + string list list" where
  "history_loop pyfloat fmt2 [] vars rows = Inr rows"
| "history_loop pyfloat fmt2 (tr # rest) vars rows =
     (case resolve_entry pyfloat tr vars of
        Inl e \<Rightarrow> Inl e
      | Inr vars' \<Rightarrow>
          (case make_row fmt2 (get_default (e_timestamp tr) []) vars' of
             Inl e \<Rightarrow> Inl e
           | Inr row \<Rightarrow> history_loop pyfloat fmt2 rest vars' (rows @ [row])))"

text \<open>
  \<^verbatim>\<open>show_transaction_history\<close>. The method prints and returns nothing; the model returns
  what it prints about the transactions: the rows handed to \<^verbatim>\<open>tabulate\<close>, or nothing for
  an empty log. The header and the footer are built from the account's attributes and from
  the first row only, and are left out.
\<close>

datatype report = No_transactions | Statement "string list list"

definition show_transaction_history ::
  "(string \<Rightarrow> real option) \<Rightarrow> (real \<Rightarrow> string) \<Rightarrow> account \<Rightarrow> py_error + report" where
  "show_transaction_history pyfloat fmt2 a =
     (if acc_transactions a = [] then Inr No_transactions
      else (case history_loop pyfloat fmt2 (acc_transactions a) initial_locals [] of
              Inl e \<Rightarrow> Inl e
            | Inr rows \<Rightarrow> Inr (Statement rows)))"

text \<open>
  Python's \<^verbatim>\<open>float\<close> on the plain unsigned decimal literals (\<^verbatim>\<open>40\<close>, \<^verbatim>\<open>12.5\<close>, \<^verbatim>\<open>4.\<close>, \<^verbatim>\<open>.5\<close>),
  for the examples. The other spellings that \<^verbatim>\<open>float\<close> accepts (sign, exponent, blanks,
  underscores, \<^verbatim>\<open>inf\<close>, \<^verbatim>\<open>nan\<close>) are not covered: the theorems below hold for every
  \<open>pyfloat\<close>, and only the examples use this one.
\<close>

definition is_digit :: "char \<Rightarrow> bool" where
  "is_digit c = (c \<in> set ''0123456789'')"

definition digits_value :: "string \<Rightarrow> nat" where
  "digits_value ds = foldl (\<lambda>n c. 10 * n + (of_char c - 48)) 0 ds"

definition float_of_decimal :: "string \<Rightarrow> real option" where
  "float_of_decimal s =
     (let ip = takeWhile is_digit s; r = dropWhile is_digit s in
      case r of
        [] \<Rightarrow> if ip = [] then None else Some (real (digits_value ip))
      | c # fp \<Rightarrow>
          if c = CHR ''.'' \<and> list_all is_digit fp \<and> (ip \<noteq> [] \<or> fp \<noteq> [])
          then Some (real (digits_value ip) + real (digits_value fp) / 10 ^ length fp)
          else None)"

section \<open>Bank\<close>

text \<open>
  The email pattern of \<^verbatim>\<open>create_account\<close>,
  \<^verbatim>\<open>(^[a-zA-Z0-9_.+-]+@[a-zA-Z0-9-]+\.[a-zA-Z0-9-.]+$)\<close>, under \<^verbatim>\<open>re.match\<close>. The character
  after each repeated class lies outside that class (\<^verbatim>\<open>@\<close>, then \<^verbatim>\<open>.\<close>), so each repetition
  takes the longest run; the last class reaches the end of the string, where \<^verbatim>\<open>$\<close> also
  accepts one final newline.
\<close>

definition alnum :: "char \<Rightarrow> bool" where
  "alnum c =
     (c \<in> set ''abcdefghijklmnopqrstuvwxyzABCDEFGHIJKLMNOPQRSTUVWXYZ0123456789'')"

definition local_char :: "char \<Rightarrow> bool" where
  "local_char c = (alnum c \<or> c \<in> set ''_.+-'')"

definition domain_char :: "char \<Rightarrow> bool" where
  "domain_char c = (alnum c \<or> c = CHR ''-'')"

definition tld_char :: "char \<Rightarrow> bool" where
  "tld_char c = (alnum c \<or> c \<in> set ''-.'')"

definition tld_to_end :: "string \<Rightarrow> bool" where
  "tld_to_end r =
     (r \<noteq> [] \<and>
      (list_all tld_char r \<or>
       (last r = CHR 0x0A \<and> butlast r \<noteq> [] \<and> list_all tld_char (butlast r))))"

definition email_pattern_match :: "string \<Rightarrow> bool" where
  "email_pattern_match email =
     (takeWhile local_char email \<noteq> [] \<and>
      (case dropWhile local_char email of
         [] \<Rightarrow> False
       | c # r \<Rightarrow>
           c = CHR ''@'' \<and> takeWhile domain_char r \<noteq> [] \<and>
           (case dropWhile domain_char r of
              [] \<Rightarrow> False
            | c' # r' \<Rightarrow> c' = CHR ''.'' \<and> tld_to_end r')))"

text \<open>
  The state of a \<^verbatim>\<open>Bank\<close> and of what it writes: \<^verbatim>\<open>self.accounts\<close> (a dict, in
  insertion order), the content of \<^verbatim>\<open>bank_data.json\<close> (\<open>None\<close> while this bank has not
  written it) and the notifications handed to \<^verbatim>\<open>send_account_details\<close>, whose SMTP
  failures are caught and change nothing.
\<close>

record bank =
  accounts :: "(string \<times> account) list"
  bank_data_json :: "(string \<times> data) list option"
  notifications :: "(string \<times> string \<times> string \<times> real) list"

text \<open>\<^verbatim>\<open>d[k] = v\<close> on a dict kept in insertion order.\<close>

fun dict_set :: "'k \<Rightarrow> 'v \<Rightarrow> ('k \<times> 'v) list \<Rightarrow> ('k \<times> 'v) list" where
  "dict_set k v [] = [(k, v)]"
| "dict_set k v ((k', v') # kvs) =
     (if k' = k then (k, v) # kvs else (k', v') # dict_set k v kvs)"

definition save_data :: "bank \<Rightarrow> bank" where
  "save_data b = b\<lparr> bank_data_json := Some (map (\<lambda>(acc_num, acc). (acc_num, to_dict acc)) (accounts b)) \<rparr>"

text \<open>
  \<^verbatim>\<open>generate_account_number\<close>: the loop draws random numbers until one is not a key of
  \<^verbatim>\<open>self.accounts\<close>. The draws (\<^verbatim>\<open>str(random.randint(1000000000, 9999999999))\<close>) are the
  list \<open>draws\<close>; the result is \<open>None\<close> when all of them are taken, where the loop would
  draw again.
\<close>

fun generate_account_number :: "string list \<Rightarrow> bank \<Rightarrow> string option" where
  "generate_account_number [] b = None"
| "generate_account_number (account_number # draws) b =
     (if map_of (accounts b) account_number = None then Some account_number
      else generate_account_number draws b)"

text \<open>
  \<^verbatim>\<open>create_account\<close> returns nothing and reports by printing; the outcome below is the
  message it prints: one constructor for each of the five error messages, and the new
  account number for the success message.
\<close>

datatype outcome =
    Invalid_email_format
  | Email_already_exists
  | Name_or_email_empty
  | Negative_initial_balance
  | Bad_account_type
  | Account_created string

definition create_account ::
  "(real \<Rightarrow> string) \<Rightarrow> string \<Rightarrow> string list \<Rightarrow> string \<Rightarrow> string \<Rightarrow> string \<Rightarrow> real \<Rightarrow>
   string option \<Rightarrow> string option \<Rightarrow> string option \<Rightarrow> string option \<Rightarrow> bank \<Rightarrow>
   (outcome \<times> bank) option" where
  "create_account fmt now draws name email account_type initial_balance
       street_address postal_code city country b =
     (if \<not> email_pattern_match email then Some (Invalid_email_format, b)
      else if Some email \<in> set (map (\<lambda>(acc_num, acc). d_email (to_dict acc)) (accounts b))
        then Some (Email_already_exists, b)
      else if name = [] \<or> email = [] then Some (Name_or_email_empty, b)
      else if initial_balance < 0 then Some (Negative_initial_balance, b)
      else if account_type \<notin> set [''Checking'', ''Savings''] then Some (Bad_account_type, b)
      else
        (case generate_account_number draws b of
           None \<Rightarrow> None
         | Some account_number \<Rightarrow>
             (let new_account =
                    (if account_type = ''Checking''
                     then CheckingAccount_init fmt now (Some name) (Some account_number)
                            (Some email) initial_balance street_address postal_code city country
                     else SavingsAccount_init fmt now (Some name) (Some account_number)
                            (Some email) initial_balance street_address postal_code city country);
                  b1 = b\<lparr> accounts := dict_set account_number new_account (accounts b) \<rparr>;
                  b2 = save_data b1;
                  b3 = b2\<lparr> notifications :=
                             notifications b2 @ [(email, name, account_number, initial_balance)] \<rparr>
              in Some (Account_created account_number, b3))))"

section \<open>Ledger invariant and example values\<close>


text \<open>Values for the examples, with a fixed rendering of numbers.\<close>

definition example_fmt :: "real \<Rightarrow> string" where
  "example_fmt x = ''?''"

definition savings_500 :: account where
  "savings_500 =
     SavingsAccount_init example_fmt ''2024-01-01 09:00'' (Some ''Ann'') (Some ''1000000001'')
       (Some ''ann@example.org'') 500 None None None None"


text \<open>
  Records as \<^verbatim>\<open>bank_data.json\<close> can hold them: a Savings record, the same record with an
  unknown kind, with no kind, with a balance that disagrees with its log, and with no log.
\<close>

definition entry_created_500 :: entry where
  "entry_created_500 =
     \<lparr> e_timestamp = Some ''2024-01-01 09:00'',
       e_action = Some ''Account created with balance'',
       e_amount = Some 500,
       e_running_balance = Some 500,
       e_details = Some ''Account created with balance: $500'' \<rparr>"

definition record_savings :: data where
  "record_savings =
     \<lparr> d_name = Some ''Ann'',
       d_account_number = Some ''1000000001'',
       d_email = Some ''ann@example.org'',
       d_balance = Some 500,
       d_account_type = Some ''Savings'',
       d_street_address = None,
       d_postal_code = None,
       d_city = None,
       d_country = None,
       d_transactions = Some [entry_created_500] \<rparr>"

definition record_business :: data where
  "record_business = record_savings\<lparr> d_account_type := Some ''Business'' \<rparr>"

definition record_no_kind :: data where
  "record_no_kind = record_savings\<lparr> d_account_type := None \<rparr>"

definition record_inconsistent :: data where
  "record_inconsistent = record_savings\<lparr> d_balance := Some 999 \<rparr>"

definition record_no_log :: data where
  "record_no_log =
     record_savings\<lparr> d_account_type := Some ''Checking'', d_transactions := None \<rparr>"

text \<open>
  A transaction in the old format (no \<^verbatim>\<open>action\<close> key) whose text is none of the three
  known ones, and two records whose logs hold it: after a creation entry, and alone.
\<close>

definition legacy_unknown :: entry where
  "legacy_unknown =
     \<lparr> e_timestamp = Some ''2024-01-05 14:00'',
       e_action = None,
       e_amount = None,
       e_running_balance = None,
       e_details = Some ''Transferred $25'' \<rparr>"

definition record_unknown_entry :: data where
  "record_unknown_entry =
     record_savings\<lparr> d_transactions := Some [entry_created_500, legacy_unknown] \<rparr>"

definition record_only_unknown :: data where
  "record_only_unknown = record_savings\<lparr> d_transactions := Some [legacy_unknown] \<rparr>"

text \<open>A bank that holds one account.\<close>

definition example_bank :: bank where
  "example_bank =
     \<lparr> accounts = [(''1000000001'', savings_500)],
       bank_data_json = None,
       notifications = [] \<rparr>"

section \<open>Properties\<close>

subsection \<open>Balance and ledger\<close>








subsection \<open>Withdrawal and deposit policies\<close>







subsection \<open>Serialization\<close>

lemmas from_dict_defs =
  from_dict_def SavingsAccount_from_dict_def CheckingAccount_from_dict_def
  SavingsAccount_init_def CheckingAccount_init_def Account_init_def get_default_def Let_def

text \<open>
  Claim C5. Let \<open>x\<close> be a record whose \<^verbatim>\<open>account_type\<close> is \<^verbatim>\<open>"Savings"\<close> or \<^verbatim>\<open>"Checking"\<close>.
  Serializing the account that \<^verbatim>\<open>from_dict\<close> builds from \<open>x\<close> gives back the kind of \<open>x\<close>,
  its balance and its transaction log, whenever \<open>x\<close> has them (a serialized record always
  has), and then gives back \<open>x\<close> itself, field by field. The account built is of the class
  that the kind names.
\<close>

theorem serialize_deserialize_roundtrip:
  assumes "d_account_type x = Some ''Savings'' \<or> d_account_type x = Some ''Checking''"
  shows "d_account_type (to_dict (from_dict fmt now x)) = d_account_type x \<and>
         acc_class (from_dict fmt now x) =
           (if d_account_type x = Some ''Savings'' then SavingsAccount else CheckingAccount) \<and>
         (d_balance x \<noteq> None \<longrightarrow> d_balance (to_dict (from_dict fmt now x)) = d_balance x) \<and>
         (d_transactions x \<noteq> None \<longrightarrow>
            d_transactions (to_dict (from_dict fmt now x)) = d_transactions x) \<and>
         (d_balance x \<noteq> None \<and> d_transactions x \<noteq> None \<longrightarrow>
            to_dict (from_dict fmt now x) = x)"
  using assms
  by (auto simp add: from_dict_defs to_dict_def)

theorem serialize_deserialize_roundtrip_witness:
  "d_account_type record_savings = Some ''Savings'' \<and>
   d_balance record_savings = Some 500 \<and>
   d_transactions record_savings = Some [entry_created_500] \<and>
   acc_class (from_dict example_fmt ''2024-02-01 08:00'' record_savings) = SavingsAccount \<and>
   to_dict (from_dict example_fmt ''2024-02-01 08:00'' record_savings) = record_savings"
  using serialize_deserialize_roundtrip [of record_savings example_fmt "''2024-02-01 08:00''"]
  by (simp add: record_savings_def)

text \<open>
  Claim C10. The account that \<^verbatim>\<open>from_dict\<close> builds has the balance of the record's
  \<^verbatim>\<open>balance\<close> field (0 when the field is absent) and, as its log, the record's
  \<^verbatim>\<open>transactions\<close> field (the empty log when the field is absent): the creation entry that
  the constructor appended is gone. Nothing relates the two fields, so a balance that
  disagrees with the last running balance of the log is kept as it is.
\<close>

theorem from_dict_takes_record_verbatim:
  "acc_balance (from_dict fmt now x) = get_default (d_balance x) 0 \<and>
   acc_transactions (from_dict fmt now x) = get_default (d_transactions x) [] \<and>
   (d_transactions x = None \<longrightarrow> acc_transactions (from_dict fmt now x) = []) \<and>
   (d_balance x = Some b \<and> d_transactions x = Some ts \<longrightarrow>
      acc_balance (from_dict fmt now x) = b \<and> acc_transactions (from_dict fmt now x) = ts)"
  by (simp add: from_dict_defs)

theorem from_dict_takes_record_verbatim_witness:
  "d_transactions record_no_log = None \<and>
   acc_transactions (from_dict example_fmt ''2024-02-01 08:00'' record_no_log) = [] \<and>
   d_balance record_inconsistent = Some 999 \<and>
   d_transactions record_inconsistent = Some [entry_created_500] \<and>
   e_running_balance (last [entry_created_500]) = Some 500 \<and>
   acc_balance (from_dict example_fmt ''2024-02-01 08:00'' record_inconsistent) = 999 \<and>
   acc_transactions (from_dict example_fmt ''2024-02-01 08:00'' record_inconsistent) =
     [entry_created_500]"
  using from_dict_takes_record_verbatim [of example_fmt "''2024-02-01 08:00''" record_no_log]
    from_dict_takes_record_verbatim [of example_fmt "''2024-02-01 08:00''" record_inconsistent
      999 "[entry_created_500]"]
  by (simp add: record_no_log_def record_inconsistent_def record_savings_def
      entry_created_500_def get_default_def)

text \<open>
  Claim C6 says that a record whose \<^verbatim>\<open>account_type\<close> is absent or unknown is rebuilt as a
  Savings account. It is not: the record of kind \<^verbatim>\<open>"Business"\<close> is rebuilt as an object of the
  base class, labelled \<^verbatim>\<open>"Business"\<close>, on which \<^verbatim>\<open>withdraw\<close> raises although 50 is within both
  the balance and the Savings ceiling.
\<close>

theorem unknown_kind_is_not_savings_counterexample:
  "d_account_type record_business = Some ''Business'' \<and>
   acc_class (from_dict example_fmt ''2024-02-01 08:00'' record_business) = Account \<and>
   acc_account_type (from_dict example_fmt ''2024-02-01 08:00'' record_business) = ''Business'' \<and>
   acc_balance (from_dict example_fmt ''2024-02-01 08:00'' record_business) = 500 \<and>
   withdraw example_fmt ''2024-02-01 08:05'' 50
     (from_dict example_fmt ''2024-02-01 08:00'' record_business) = Inl NotImplementedError"
  by (simp add: record_business_def record_savings_def from_dict_defs withdraw_def)

text \<open>
  Claim C6, amended. For a record whose \<^verbatim>\<open>account_type\<close> is absent, or is neither
  \<^verbatim>\<open>"Savings"\<close> nor \<^verbatim>\<open>"Checking"\<close>, \<^verbatim>\<open>from_dict\<close> builds an object of the base class
  \<^verbatim>\<open>Account\<close>, not of the Savings variant. Its kind label is \<^verbatim>\<open>"Savings"\<close> when the field is
  absent and the recorded value otherwise; its balance and its log are the record's.
\<close>

theorem unknown_kind_gives_base_account:
  assumes "d_account_type x \<noteq> Some ''Savings''" and "d_account_type x \<noteq> Some ''Checking''"
  shows "acc_class (from_dict fmt now x) = Account \<and>
         acc_account_type (from_dict fmt now x) = get_default (d_account_type x) ''Savings'' \<and>
         acc_balance (from_dict fmt now x) = get_default (d_balance x) 0 \<and>
         acc_transactions (from_dict fmt now x) = get_default (d_transactions x) []"
  using assms by (simp add: from_dict_defs)

theorem unknown_kind_gives_base_account_witness:
  "d_account_type record_no_kind = None \<and>
   acc_class (from_dict example_fmt ''2024-02-01 08:00'' record_no_kind) = Account \<and>
   acc_account_type (from_dict example_fmt ''2024-02-01 08:00'' record_no_kind) = ''Savings'' \<and>
   acc_balance (from_dict example_fmt ''2024-02-01 08:00'' record_no_kind) = 500 \<and>
   acc_transactions (from_dict example_fmt ''2024-02-01 08:00'' record_no_kind) =
     [entry_created_500]"
  using unknown_kind_gives_base_account [of record_no_kind example_fmt "''2024-02-01 08:00''"]
  by (simp add: record_no_kind_def record_savings_def get_default_def)

subsection \<open>Legacy entries in the transaction history\<close>

lemma split_on_nonempty: "split_on sep s \<noteq> []"
  by (induction s) (auto split: list.splits)






text \<open>
  Claim C8 asks for a warning on an old-format entry whose description matches none of
  the three patterns. The code has no branch for it: the entry assigns nothing, so the
  loop goes on with the variables of the iteration before. Its row repeats the action and
  the amount of the entry before it, with the balance unchanged, and when there is no
  entry before it the read of the unbound \<^verbatim>\<open>action\<close> raises. The example after the theorem runs the
  whole method on both logs.
\<close>

theorem unrecognized_legacy_entry_not_flagged:
  assumes "e_action tr = None"
    and "\<not> contains ''Account created with balance'' (get_default (e_details tr) [])"
    and "\<not> contains ''Deposited'' (get_default (e_details tr) [])"
    and "\<not> contains ''Withdrew'' (get_default (e_details tr) [])"
  shows "resolve_entry pyfloat tr vars = Inr vars \<and>
         history_loop pyfloat fmt2 (tr # rest) vars rows =
           (case make_row fmt2 (get_default (e_timestamp tr) []) vars of
              Inl e \<Rightarrow> Inl e
            | Inr row \<Rightarrow> history_loop pyfloat fmt2 rest vars (rows @ [row])) \<and>
         (v_action vars = None \<longrightarrow>
            history_loop pyfloat fmt2 (tr # rest) vars rows = Inl UnboundLocalError) \<and>
         (v_action vars = Some act \<and> v_amount vars = Some amt \<longrightarrow>
            history_loop pyfloat fmt2 (tr # rest) vars rows =
              history_loop pyfloat fmt2 rest vars
                (rows @ [[get_default (e_timestamp tr) [], act,
                          (if contains ''Withdrawal'' act then ''-$'' @ fmt2 amt
                           else ''$'' @ fmt2 amt),
                          ''$'' @ fmt2 (v_running_balance vars)]]))"
  using assms by (simp add: resolve_entry_def reconcile_legacy_def make_row_def)

theorem unrecognized_legacy_entry_not_flagged_witness:
  "show_transaction_history float_of_decimal example_fmt
     (from_dict example_fmt ''2024-02-01 08:00'' record_unknown_entry) =
     Inr (Statement
       [[''2024-01-01 09:00'', ''Account created with balance'', ''$?'', ''$?''],
        [''2024-01-05 14:00'', ''Account created with balance'', ''$?'', ''$?'']]) \<and>
   show_transaction_history float_of_decimal example_fmt
     (from_dict example_fmt ''2024-02-01 08:00'' record_only_unknown) = Inl UnboundLocalError"
  using unrecognized_legacy_entry_not_flagged [of legacy_unknown float_of_decimal
      "\<lparr> v_action = Some ''Account created with balance'', v_amount = Some 500,
         v_running_balance = 500 \<rparr>" example_fmt "[]"
      "[[''2024-01-01 09:00'', ''Account created with balance'', ''$?'', ''$?'']]"]
    unrecognized_legacy_entry_not_flagged [of legacy_unknown float_of_decimal
      initial_locals example_fmt "[]" "[]"]
  by (simp add: show_transaction_history_def from_dict_defs record_unknown_entry_def
      record_only_unknown_def record_savings_def entry_created_500_def legacy_unknown_def
      resolve_entry_def make_row_def initial_locals_def example_fmt_def)

subsection \<open>Account creation\<close>

lemmas email_defs =
  email_pattern_match_def tld_to_end_def local_char_def domain_char_def tld_char_def alnum_def


text \<open>
  The pattern rejects the empty email, so of the third check of \<^verbatim>\<open>create_account\<close> only
  the part about the name can fail.
\<close>

lemma email_match_nonempty: "email_pattern_match email \<Longrightarrow> email \<noteq> []"
  by (auto simp add: email_pattern_match_def)

text \<open>
  A creation that passes every check: the first draw is taken, the second one becomes the
  account number; the account is added, the data file is written, one notification is sent.
\<close>

lemma create_account_example:
  "\<exists>b'. create_account example_fmt ''2024-03-01 12:00'' [''1000000001'', ''1000000007'']
           ''Carl'' ''carl@example.org'' ''Checking'' 20 None None None None example_bank =
           Some (Account_created ''1000000007'', b') \<and>
         map fst (accounts b') = [''1000000001'', ''1000000007''] \<and>
         map (acc_class \<circ> snd) (accounts b') = [SavingsAccount, CheckingAccount] \<and>
         bank_data_json b' = Some (map (\<lambda>(n, a). (n, to_dict a)) (accounts b')) \<and>
         notifications b' = [(''carl@example.org'', ''Carl'', ''1000000007'', 20)]"
  by (simp add: create_account_def email_defs example_bank_def savings_500_def
      SavingsAccount_init_def CheckingAccount_init_def Account_init_def to_dict_def
      save_data_def Let_def)



end
